theory Spec2Isabelle
  imports Main "HOL-Library.Sublist" "HOL-Library.AList" "HOL-Library.Word"
begin

section \<open>The vulnerability database curator (grype/db/v6/installation/curator.go)\<close>

text \<open>
  A shallow embedding of the curator: every method of the Go type \<open>curator\<close> is a HOL
  function of the same name. What the Go code reads from or writes to the outside (the
  file system, the wall clock, the distribution client) is an explicit \<open>world\<close> value that
  the mutating methods return updated. Go's \<open>(value, error)\<close> results are pairs of options
  where the code can return both, and sums where it returns one of the two.
  Logging, the progress monitor and the event bus never feed back into control flow or
  into the files; they are left out, and with them \<open>Status\<close>, which only reports.
\<close>

subsection \<open>Time: instants and durations\<close>

text \<open>
  A \<open>time.Time\<close> is an instant, counted in nanoseconds from the Unix epoch (its location
  does not take part in comparison or subtraction, so \<open>UTC()\<close> is the identity on
  instants). A \<open>time.Duration\<close> is an \<open>int64\<close> count of nanoseconds. \<open>Time.Sub\<close>
  saturates at the smallest and the largest duration.
\<close>

type_synonym Time = int
type_synonym Duration = "64 word"

definition minDuration :: int where
  "minDuration = - (2 ^ 63)"

definition maxDuration :: int where
  "maxDuration = 2 ^ 63 - 1"

definition Sub :: "Time \<Rightarrow> Time \<Rightarrow> Duration" where
  "Sub t u =
     (if maxDuration < t - u then word_of_int maxDuration
      else if t - u < minDuration then word_of_int minDuration
      else word_of_int (t - u))"

text \<open>The zero \<open>Time\<close>: January 1 of year 1, 00:00:00 UTC.\<close>

definition zeroTime :: Time where
  "zeroTime = - 62135596800000000000"

definition IsZero :: "Time \<Rightarrow> bool" where
  "IsZero t = (t = zeroTime)"

text \<open>\<open>a > b\<close> on two durations is the signed comparison of \<open>int64\<close>.\<close>

definition gtDuration :: "Duration \<Rightarrow> Duration \<Rightarrow> bool" where
  "gtDuration a b = (sint b < sint a)"

subsection \<open>Errors\<close>

datatype errno = ENOENT | EACCES | EISDIR | ENOTDIR | ENOTEMPTY | EINVAL | ENOSPC | EEXIST

type_synonym path = "string list"

text \<open>
  One constructor for each \<open>fmt.Errorf\<close> of the source, carrying the values the message
  is formatted from (\<open>%w\<close> is the wrapped error). \<open>PathError\<close> is an error of the
  operating system; \<open>External\<close> is an error made by a collaborator outside this file.
\<close>

datatype error =
    PathError errno path
  | External string
  | UnableToCheckMetadataPath path error
  | UnableToOpenMetadataPath path error
  | UnableToParseMetadata path error
  | FailedToParseDatabaseMetadata path error
  | DatabaseMetadataNotFound path
  | BadDbChecksum path string string
  | UnsupportedDatabaseVersion int int
  | NoMetadataToValidate
  | DatabaseTooOld Duration Duration
  | UnableToReadCurrentMetadata error
  | UnableToUpdate error
  | UnableToActivate error
  | FailedToPurge error
  | UnableToCreateTempDir error
  | UnableToReadLastCheck error
  | UnableToParseLastCheck error
  | EmptyUpdateCheckTimestamp

fun IsNotExist :: "error option \<Rightarrow> bool" where
  "IsNotExist (Some (PathError ENOENT p)) = True"
| "IsNotExist e = False"

subsection \<open>The file system\<close>

text \<open>
  The curator is built over \<open>afero.NewOsFs()\<close>, so \<open>c.fs\<close>, \<open>os.Rename\<close> and
  \<open>os.MkdirTemp\<close> act on one and the same tree. A path is the list of its components
  (\<open>path.Join dir name\<close> is \<open>dir @ [name]\<close>, \<open>filepath.Dir\<close> is \<open>butlast\<close>). The tree
  is a finite table from paths to nodes; a node is a file with its bytes or a directory,
  with the read (for a directory: search) and write permission of the process.
  \<open>diskFull\<close> makes every write of bytes fail.
\<close>

datatype node = File string | Dir

record inode =
  kind :: node
  readable :: bool
  writable :: bool

record filesystem =
  nodes :: "(path \<times> inode) list"
  diskFull :: bool

definition lookupNode :: "filesystem \<Rightarrow> path \<Rightarrow> inode option" where
  "lookupNode fs p = map_of (nodes fs) p"

definition searchable :: "filesystem \<Rightarrow> path \<Rightarrow> bool" where
  "searchable fs p =
     list_all (\<lambda>a. case lookupNode fs a of None \<Rightarrow> True | Some i \<Rightarrow> readable i)
       (butlast (prefixes p))"

definition parentWritable :: "filesystem \<Rightarrow> path \<Rightarrow> bool" where
  "parentWritable fs p =
     (case lookupNode fs (butlast p) of None \<Rightarrow> True | Some d \<Rightarrow> writable d)"

definition Stat :: "filesystem \<Rightarrow> path \<Rightarrow> error + inode" where
  "Stat fs p =
     (if \<not> searchable fs p then Inl (PathError EACCES p)
      else case lookupNode fs p of
             None \<Rightarrow> Inl (PathError ENOENT p)
           | Some i \<Rightarrow> Inr i)"

definition errOf :: "error + 'a \<Rightarrow> error option" where
  "errOf r = (case r of Inl e \<Rightarrow> Some e | Inr v \<Rightarrow> None)"

text \<open>\<open>Open\<close> and \<open>OpenFile(path, O_RDONLY, 0)\<close>: the handle is the node that was opened.\<close>

definition OpenRead :: "filesystem \<Rightarrow> path \<Rightarrow> error + node" where
  "OpenRead fs p =
     (case Stat fs p of
        Inl e \<Rightarrow> Inl e
      | Inr i \<Rightarrow> if readable i then Inr (kind i) else Inl (PathError EACCES p))"

text \<open>Reading the bytes behind a handle; a directory cannot be read as a file.\<close>

definition readHandle :: "path \<Rightarrow> node \<Rightarrow> error + string" where
  "readHandle p h = (case h of File s \<Rightarrow> Inr s | Dir \<Rightarrow> Inl (PathError EISDIR p))"

definition newFile :: inode where
  "newFile = \<lparr>kind = File [], readable = True, writable = True\<rparr>"

definition newDir :: inode where
  "newDir = \<lparr>kind = Dir, readable = True, writable = True\<rparr>"

text \<open>\<open>OpenFile(path, O_CREATE|O_TRUNC|O_WRONLY, 0644)\<close>: an existing file is emptied, a
  missing one is created in its parent directory.\<close>

definition OpenTrunc :: "filesystem \<Rightarrow> path \<Rightarrow> error option \<times> filesystem" where
  "OpenTrunc fs p =
     (if \<not> searchable fs p then (Some (PathError EACCES p), fs)
      else case lookupNode fs p of
             Some i \<Rightarrow>
               (case kind i of
                  Dir \<Rightarrow> (Some (PathError EISDIR p), fs)
                | File s \<Rightarrow>
                    if writable i
                    then (None, fs\<lparr>nodes := AList.update p (i\<lparr>kind := File []\<rparr>) (nodes fs)\<rparr>)
                    else (Some (PathError EACCES p), fs))
           | None \<Rightarrow>
               (case lookupNode fs (butlast p) of
                  None \<Rightarrow> (Some (PathError ENOENT p), fs)
                | Some d \<Rightarrow>
                    if kind d \<noteq> Dir then (Some (PathError ENOTDIR p), fs)
                    else if \<not> writable d then (Some (PathError EACCES p), fs)
                    else (None, fs\<lparr>nodes := AList.update p newFile (nodes fs)\<rparr>)))"

text \<open>Writing a string through a handle that \<open>OpenTrunc\<close> gave.\<close>

definition WriteString :: "filesystem \<Rightarrow> path \<Rightarrow> string \<Rightarrow> error option \<times> filesystem" where
  "WriteString fs p s =
     (if diskFull fs then (Some (PathError ENOSPC p), fs)
      else case lookupNode fs p of
             None \<Rightarrow> (Some (PathError ENOENT p), fs)
           | Some i \<Rightarrow> (None, fs\<lparr>nodes := AList.update p (i\<lparr>kind := File s\<rparr>) (nodes fs)\<rparr>))"

text \<open>
  \<open>RemoveAll\<close>: removes the path and everything below it; a missing path is no error.
  An entry whose parent directory is not writable cannot be unlinked: it stays, with its
  ancestors below the path, and the first such entry is the error returned.
\<close>

definition stuckEntries :: "filesystem \<Rightarrow> path \<Rightarrow> path list" where
  "stuckEntries fs p =
     filter (\<lambda>q. prefix p q \<and> \<not> parentWritable fs q) (map fst (nodes fs))"

definition RemoveAll :: "filesystem \<Rightarrow> path \<Rightarrow> error option \<times> filesystem" where
  "RemoveAll fs p =
     (if \<not> searchable fs p then (Some (PathError EACCES p), fs)
      else
        let stuck = stuckEntries fs p;
            fs' = fs\<lparr>nodes :=
                   filter (\<lambda>(q, i). \<not> prefix p q \<or> list_ex (\<lambda>s. prefix q s) stuck) (nodes fs)\<rparr>
        in (case stuck of [] \<Rightarrow> None | s # ss \<Rightarrow> Some (PathError EACCES s), fs'))"

text \<open>
  \<open>os.Rename\<close>: moves a node with everything below it. It fails when the source is
  missing, when the target's parent is missing or is no directory, when a directory would
  move below itself, when one of the two parents is not writable, and when the target
  exists and is neither a file replaced by a file nor an empty directory replaced by a
  directory.
\<close>

definition hasChildren :: "filesystem \<Rightarrow> path \<Rightarrow> bool" where
  "hasChildren fs p = list_ex (\<lambda>q. strict_prefix p q) (map fst (nodes fs))"

definition moveEntries :: "path \<Rightarrow> path \<Rightarrow> (path \<times> inode) list \<Rightarrow> (path \<times> inode) list" where
  "moveEntries old new xs =
     map (\<lambda>(q, i). if prefix old q then (new @ drop (length old) q, i) else (q, i))
       (filter (\<lambda>(q, i). q \<noteq> new) xs)"

definition Rename :: "filesystem \<Rightarrow> path \<Rightarrow> path \<Rightarrow> error option \<times> filesystem" where
  "Rename fs old new =
     (if \<not> searchable fs old \<or> \<not> searchable fs new then (Some (PathError EACCES old), fs)
      else case lookupNode fs old of
             None \<Rightarrow> (Some (PathError ENOENT old), fs)
           | Some i \<Rightarrow>
               if old = new then (None, fs)
               else if prefix old new then (Some (PathError EINVAL new), fs)
               else (case lookupNode fs (butlast new) of
                       None \<Rightarrow> (Some (PathError ENOENT new), fs)
                     | Some d \<Rightarrow>
                         if kind d \<noteq> Dir then (Some (PathError ENOTDIR new), fs)
                         else if \<not> writable d \<or> \<not> parentWritable fs old
                         then (Some (PathError EACCES new), fs)
                         else (case lookupNode fs new of
                                 None \<Rightarrow> (None, fs\<lparr>nodes := moveEntries old new (nodes fs)\<rparr>)
                               | Some n \<Rightarrow>
                                   if kind i = Dir \<and> kind n \<noteq> Dir
                                   then (Some (PathError ENOTDIR new), fs)
                                   else if kind i \<noteq> Dir \<and> kind n = Dir
                                   then (Some (PathError EISDIR new), fs)
                                   else if hasChildren fs new
                                   then (Some (PathError ENOTEMPTY new), fs)
                                   else (None, fs\<lparr>nodes := moveEntries old new (nodes fs)\<rparr>))))"

text \<open>Decimal digits of a number, for \<open>strconv.Itoa\<close> and \<open>%v\<close> of an \<open>int\<close>.\<close>

fun dec :: "nat \<Rightarrow> string" where
  "dec n =
     (if n < 10 then [''0123456789'' ! n]
      else dec (n div 10) @ [''0123456789'' ! (n mod 10)])"

declare dec.simps [simp del]

definition Itoa :: "int \<Rightarrow> string" where
  "Itoa i = (if i < 0 then CHR ''-'' # dec (nat (- i)) else dec (nat i))"

text \<open>
  \<open>os.MkdirTemp(dir, pattern)\<close> makes a new directory \<open>pattern ^ digits\<close> in \<open>dir\<close>, with
  digits for which no entry exists yet. The Go library draws the digits at random and
  retries on a clash; here the first free number is taken. Among
  \<open>length (nodes fs) + 1\<close> candidates one is always free.
\<close>

definition tempCandidates :: "filesystem \<Rightarrow> path \<Rightarrow> string \<Rightarrow> path list" where
  "tempCandidates fs dir pattern =
     map (\<lambda>n. dir @ [pattern @ dec n]) [0 ..< Suc (length (nodes fs))]"

definition MkdirTemp :: "filesystem \<Rightarrow> path \<Rightarrow> string \<Rightarrow> (error + path) \<times> filesystem" where
  "MkdirTemp fs dir pattern =
     (if \<not> searchable fs (dir @ [pattern]) then (Inl (PathError EACCES dir), fs)
      else case lookupNode fs dir of
             None \<Rightarrow> (Inl (PathError ENOENT dir), fs)
           | Some d \<Rightarrow>
               if kind d \<noteq> Dir then (Inl (PathError ENOTDIR dir), fs)
               else if \<not> writable d then (Inl (PathError EACCES dir), fs)
               else (case find (\<lambda>p. lookupNode fs p = None) (tempCandidates fs dir pattern) of
                       None \<Rightarrow> (Inl (PathError EEXIST dir), fs)
                     | Some p \<Rightarrow> (Inr p, fs\<lparr>nodes := AList.update p newDir (nodes fs)\<rparr>)))"

subsection \<open>Configuration, descriptors and collaborators\<close>

record Config =
  DBRootDir :: path
  ValidateAge :: bool
  ValidateChecksum :: bool
  MaxAllowedBuiltAge :: Duration
  UpdateCheckMaxFrequency :: Duration

text \<open>
  \<open>DefaultConfig\<close>: five days (\<open>time.Hour * 24 * 5\<close>) and two hours, in nanoseconds;
  \<open>xdg.CacheHome\<close> is a parameter.
\<close>

definition DefaultConfig :: "path \<Rightarrow> Config" where
  "DefaultConfig cacheHome =
     \<lparr>DBRootDir = cacheHome @ [''grype'', ''db''],
      ValidateAge = True,
      ValidateChecksum = True,
      MaxAllowedBuiltAge = 432000000000000,
      UpdateCheckMaxFrequency = 7200000000000\<rparr>"

text \<open>\<open>db.Description\<close>: the fields the curator reads.\<close>

record Description =
  Built :: Time
  SchemaVersion :: string
  Checksum :: string

text \<open>\<open>distribution.Archive\<close>: the curator reads its \<open>Description\<close> only.\<close>

record Archive =
  Description :: Description

text \<open>
  What the file uses from other packages and is not part of it; each is a parameter.
  From package \<open>db\<close>: the constants \<open>ModelVersion\<close>, \<open>VulnerabilityDBFileName\<close> and
  \<open>DescriptionFileName\<close>, the method \<open>SchemaVersion.Model()\<close> and \<open>NewReader\<close> (\<open>'h\<close> is
  the type of a reader). From \<open>internal/file\<close>: \<open>Exists\<close> and \<open>ValidateByHash\<close>, which
  read the file system, leave it as it is, and return \<open>(bool, error)\<close> and
  \<open>(valid, actualHash, error)\<close>; the curator looks at the error first, so they are sums
  here. From the Go libraries: the JSON
  decoder (\<open>Decode\<close>, on the bytes of the descriptor file), \<open>fmt.Fscanf\<close> with \<open>%s\<close>
  (\<open>Fscanf\<close>, on the bytes of the marker file), \<open>time.Parse\<close> and \<open>Time.Format\<close> with
  \<open>time.RFC3339\<close>, and \<open>archiver.Unarchive\<close>, which writes into the file system.
\<close>

record 'h deps =
  ModelVersion :: int
  VulnerabilityDBFileName :: string
  DescriptionFileName :: string
  Model :: "string \<Rightarrow> int \<times> bool"
  NewReader :: "filesystem \<Rightarrow> path \<Rightarrow> error + 'h"
  Exists :: "filesystem \<Rightarrow> path \<Rightarrow> error + bool"
  ValidateByHash :: "filesystem \<Rightarrow> path \<Rightarrow> string \<Rightarrow> error + bool \<times> string"
  Decode :: "string \<Rightarrow> error + Description"
  Fscanf :: "string \<Rightarrow> error + string"
  Parse :: "string \<Rightarrow> error + Time"
  Format :: "Time \<Rightarrow> string"
  Unarchive :: "string \<Rightarrow> path \<Rightarrow> filesystem \<Rightarrow> error option \<times> filesystem"

text \<open>
  \<open>distribution.Client\<close>, the interface of the external collaborator.
  \<open>IsUpdateAvailable\<close> returns \<open>(*Archive, error)\<close> and the curator reads both, so it is
  a pair; \<open>Download\<close> writes the staged directory into the file system.
\<close>

record Client =
  IsUpdateAvailable :: "Description option \<Rightarrow> Archive option \<times> error option"
  Download :: "Archive \<Rightarrow> path \<Rightarrow> filesystem \<Rightarrow> (error + path) \<times> filesystem"

record curator =
  client :: Client
  config :: Config

text \<open>
  The world outside the curator: the file system, the wall clock (\<open>time.Now()\<close>, read
  as one instant during an operation), and a log, in the order they were made, of the
  calls to the client and of the calls of \<open>setLastSuccessfulUpdateCheck\<close>.
\<close>

datatype event =
    CallIsUpdateAvailable "Description option"
  | CallDownload Archive path
  | CallSetLastSuccessfulUpdateCheck

record world =
  fs :: filesystem
  clock :: Time
  trace :: "event list"

definition logCall :: "event \<Rightarrow> world \<Rightarrow> world" where
  "logCall ev w = w\<lparr>trace := trace w @ [ev]\<rparr>"

subsection \<open>Paths of the active database\<close>

definition lastUpdateCheckFileName :: string where
  "lastUpdateCheckFileName = ''last_update_check''"

definition DBDirectoryPath :: "'h deps \<Rightarrow> Config \<Rightarrow> path" where
  "DBDirectoryPath E cfg = DBRootDir cfg @ [Itoa (ModelVersion E)]"

definition DBFilePath :: "'h deps \<Rightarrow> Config \<Rightarrow> path" where
  "DBFilePath E cfg = DBDirectoryPath E cfg @ [VulnerabilityDBFileName E]"

subsection \<open>Reading and validating a database directory\<close>

text \<open>
  Methods that only read or write files take the state of \<open>c.fs\<close> as the argument
  \<open>f\<close>; those that also read the clock or call the client take the whole world.
  \<open>readDatabaseDescription\<close> returns \<open>(*db.Description, error)\<close>: \<open>Inr None\<close> is
  \<open>(nil, nil)\<close>.
\<close>

definition readDatabaseDescription ::
  "'h deps \<Rightarrow> filesystem \<Rightarrow> path \<Rightarrow> error + Description option" where
  "readDatabaseDescription E f dir =
     (let metadataFilePath = dir @ [DescriptionFileName E] in
      case Exists E f metadataFilePath of
        Inl err \<Rightarrow> Inl (UnableToCheckMetadataPath metadataFilePath err)
      | Inr exists \<Rightarrow>
          if \<not> exists then Inr None
          else (case OpenRead f metadataFilePath of
                  Inl err \<Rightarrow> Inl (UnableToOpenMetadataPath metadataFilePath err)
                | Inr h \<Rightarrow>
                    (case (case readHandle metadataFilePath h of
                             Inl err \<Rightarrow> Inl err
                           | Inr bytes \<Rightarrow> Decode E bytes) of
                       Inl err \<Rightarrow> Inl (UnableToParseMetadata metadataFilePath err)
                     | Inr m \<Rightarrow> Inr (Some m))))"

definition validateIntegrity ::
  "'h deps \<Rightarrow> curator \<Rightarrow> filesystem \<Rightarrow> path \<Rightarrow> error + Description" where
  "validateIntegrity E c f dbDirPath =
     (case readDatabaseDescription E f dbDirPath of
        Inl err \<Rightarrow> Inl (FailedToParseDatabaseMetadata dbDirPath err)
      | Inr None \<Rightarrow> Inl (DatabaseMetadataNotFound dbDirPath)
      | Inr (Some metadata) \<Rightarrow>
          (case (if ValidateChecksum (config c)
                 then (let dbPath = dbDirPath @ [VulnerabilityDBFileName E] in
                       case ValidateByHash E f dbPath (Checksum metadata) of
                         Inl err \<Rightarrow> Some err
                       | Inr (valid, actualHash) \<Rightarrow>
                           if \<not> valid
                           then Some (BadDbChecksum dbPath (Checksum metadata) actualHash)
                           else None)
                 else None) of
             Some err \<Rightarrow> Inl err
           | None \<Rightarrow>
               (case Model E (SchemaVersion metadata) of
                  (gotModel, ok) \<Rightarrow>
                    if \<not> ok \<or> gotModel \<noteq> ModelVersion E
                    then Inl (UnsupportedDatabaseVersion gotModel (ModelVersion E))
                    else Inr metadata)))"

definition ensureNotStale :: "curator \<Rightarrow> world \<Rightarrow> Description option \<Rightarrow> error option" where
  "ensureNotStale c w m =
     (case m of
        None \<Rightarrow> Some NoMetadataToValidate
      | Some d \<Rightarrow>
          if \<not> ValidateAge (config c) then None
          else (let now = clock w;
                    age = Sub now (Built d)
                in if gtDuration age (MaxAllowedBuiltAge (config c))
                   then Some (DatabaseTooOld age (MaxAllowedBuiltAge (config c)))
                   else None))"

definition validate :: "'h deps \<Rightarrow> curator \<Rightarrow> world \<Rightarrow> error option" where
  "validate E c w =
     (case validateIntegrity E c (fs w) (DBDirectoryPath E (config c)) of
        Inl err \<Rightarrow> Some err
      | Inr metadata \<Rightarrow> ensureNotStale c w (Some metadata))"

text \<open>\<open>Reader\<close> returns the pair \<open>(db.Reader, error)\<close>; \<open>None\<close> stands for \<open>nil\<close>.\<close>

definition Reader :: "'h deps \<Rightarrow> curator \<Rightarrow> world \<Rightarrow> 'h option \<times> error option" where
  "Reader E c w =
     (case NewReader E (fs w) (DBDirectoryPath E (config c)) of
        Inl err \<Rightarrow> (None, Some err)
      | Inr s \<Rightarrow> (Some s, validate E c w))"

subsection \<open>The update-check throttle\<close>

definition durationSinceUpdateCheck ::
  "'h deps \<Rightarrow> curator \<Rightarrow> world \<Rightarrow> error + Duration option" where
  "durationSinceUpdateCheck E c w =
     (let filePath = DBDirectoryPath E (config c) @ [lastUpdateCheckFileName] in
      if IsNotExist (errOf (Stat (fs w) filePath)) then Inr None
      else (case OpenRead (fs w) filePath of
              Inl err \<Rightarrow> Inl (UnableToReadLastCheck err)
            | Inr fh \<Rightarrow>
                (case (case readHandle filePath fh of
                         Inl err \<Rightarrow> Inl err
                       | Inr bytes \<Rightarrow> Fscanf E bytes) of
                   Inl err \<Rightarrow> Inl (UnableToReadLastCheck err)
                 | Inr lastCheckStr \<Rightarrow>
                     (case Parse E lastCheckStr of
                        Inl err \<Rightarrow> Inl (UnableToParseLastCheck err)
                      | Inr lastCheck \<Rightarrow>
                          if IsZero lastCheck then Inl EmptyUpdateCheckTimestamp
                          else Inr (Some (Sub (clock w) lastCheck))))))"

definition isUpdateCheckAllowed :: "'h deps \<Rightarrow> curator \<Rightarrow> world \<Rightarrow> bool" where
  "isUpdateCheckAllowed E c w =
     (if UpdateCheckMaxFrequency (config c) = 0 then True
      else (case durationSinceUpdateCheck E c w of
              Inl err \<Rightarrow> True
            | Inr None \<Rightarrow> True
            | Inr (Some elapsed) \<Rightarrow> gtDuration elapsed (UpdateCheckMaxFrequency (config c))))"

text \<open>
  \<open>setLastSuccessfulUpdateCheck\<close> has no result: a failure to open the marker is logged
  and the function returns; the result of \<open>Fprintf\<close> is discarded.
\<close>

definition setLastSuccessfulUpdateCheck :: "'h deps \<Rightarrow> curator \<Rightarrow> world \<Rightarrow> world" where
  "setLastSuccessfulUpdateCheck E c w0 =
     (let w = logCall CallSetLastSuccessfulUpdateCheck w0;
          filePath = DBDirectoryPath E (config c) @ [lastUpdateCheckFileName]
      in case OpenTrunc (fs w) filePath of
           (Some err, f1) \<Rightarrow> w\<lparr>fs := f1\<rparr>
         | (None, f1) \<Rightarrow> w\<lparr>fs := snd (WriteString f1 filePath (Format E (clock w)))\<rparr>)"

subsection \<open>Delete, activate, Import and Update\<close>

definition Delete :: "'h deps \<Rightarrow> curator \<Rightarrow> filesystem \<Rightarrow> error option \<times> filesystem" where
  "Delete E c f = RemoveAll f (DBDirectoryPath E (config c))"

definition removeAllOrLog :: "filesystem \<Rightarrow> path \<Rightarrow> filesystem" where
  "removeAllOrLog f dir = snd (RemoveAll f dir)"

definition activate ::
  "'h deps \<Rightarrow> curator \<Rightarrow> filesystem \<Rightarrow> path \<Rightarrow> error option \<times> filesystem" where
  "activate E c f dbDirPath =
     (case validateIntegrity E c f dbDirPath of
        Inl err \<Rightarrow> (Some err, f)
      | Inr metadata \<Rightarrow>
          (let dbDir = DBDirectoryPath E (config c) in
           case (if \<not> IsNotExist (errOf (Stat f dbDir)) then Delete E c f else (None, f)) of
             (Some err, f1) \<Rightarrow> (Some (FailedToPurge err), f1)
           | (None, f1) \<Rightarrow> Rename f1 dbDirPath dbDir))"

definition Import ::
  "'h deps \<Rightarrow> curator \<Rightarrow> filesystem \<Rightarrow> string \<Rightarrow> error option \<times> filesystem" where
  "Import E c f dbArchivePath =
     (case MkdirTemp f (DBRootDir (config c))
             (''tmp-v'' @ Itoa (ModelVersion E) @ ''-import'') of
        (Inl err, f1) \<Rightarrow> (Some (UnableToCreateTempDir err), f1)
      | (Inr tempDir, f1) \<Rightarrow>
          (case Unarchive E dbArchivePath tempDir f1 of
             (Some err, f2) \<Rightarrow> (Some err, f2)
           | (None, f2) \<Rightarrow>
               (case activate E c f2 tempDir of
                  (Some err, f3) \<Rightarrow> (Some err, removeAllOrLog f3 tempDir)
                | (None, f3) \<Rightarrow> (None, f3))))"

definition Update :: "'h deps \<Rightarrow> curator \<Rightarrow> world \<Rightarrow> (bool \<times> error option) \<times> world" where
  "Update E c w =
     (if \<not> isUpdateCheckAllowed E c w then ((False, None), w)
      else (case readDatabaseDescription E (fs w) (DBDirectoryPath E (config c)) of
              Inl err \<Rightarrow> ((False, Some (UnableToReadCurrentMetadata err)), w)
            | Inr current \<Rightarrow>
                (case IsUpdateAvailable (client c) current of
                   (update, checkErr) \<Rightarrow>
                     (let w1 = logCall (CallIsUpdateAvailable current) w in
                      case update of
                        None \<Rightarrow>
                          ((False, None),
                           if checkErr = None then setLastSuccessfulUpdateCheck E c w1 else w1)
                      | Some u \<Rightarrow>
                          (let parent = butlast (DBRootDir (config c));
                               w2 = logCall (CallDownload u parent) w1
                           in case Download (client c) u parent (fs w2) of
                                (Inl err, f3) \<Rightarrow>
                                  ((False, Some (UnableToUpdate err)), w2\<lparr>fs := f3\<rparr>)
                              | (Inr dest, f3) \<Rightarrow>
                                  (case activate E c f3 dest of
                                     (Some err, f4) \<Rightarrow>
                                       ((False, Some (UnableToActivate err)), w2\<lparr>fs := f4\<rparr>)
                                   | (None, f4) \<Rightarrow>
                                       ((True, None),
                                        setLastSuccessfulUpdateCheck E c (w2\<lparr>fs := f4\<rparr>))))))))"

subsection \<open>The throttle in the words of the specification\<close>

text \<open>
  The specification describes the last-check marker by three states: the file is absent;
  it is there but cannot be read or parsed (it cannot be opened, it holds no token, the
  token is no RFC3339 timestamp, or the timestamp is the empty, zero one); or it records
  the instant of the last check.
\<close>

datatype marker = MarkerAbsent | MarkerUnusable | MarkerRecords Time

definition markerBytes :: "filesystem \<Rightarrow> path \<Rightarrow> string option" where
  "markerBytes f p =
     (case Stat f p of
        Inl e \<Rightarrow> None
      | Inr i \<Rightarrow> (case kind i of
                   Dir \<Rightarrow> None
                 | File bytes \<Rightarrow> if readable i then Some bytes else None))"

definition markerTimestamp :: "'h deps \<Rightarrow> string \<Rightarrow> Time option" where
  "markerTimestamp E bytes =
     (case Fscanf E bytes of
        Inl e \<Rightarrow> None
      | Inr token \<Rightarrow> (case Parse E token of
                       Inl e \<Rightarrow> None
                     | Inr t \<Rightarrow> if t = zeroTime then None else Some t))"

definition lastCheckMarker :: "'h deps \<Rightarrow> curator \<Rightarrow> filesystem \<Rightarrow> marker" where
  "lastCheckMarker E c f =
     (let p = DBDirectoryPath E (config c) @ [lastUpdateCheckFileName] in
      if Stat f p = Inl (PathError ENOENT p) then MarkerAbsent
      else (case markerBytes f p of
              None \<Rightarrow> MarkerUnusable
            | Some bytes \<Rightarrow> (case markerTimestamp E bytes of
                              None \<Rightarrow> MarkerUnusable
                            | Some t \<Rightarrow> MarkerRecords t)))"

text \<open>How often the marker was written, read off the log of calls.\<close>

definition recordedChecks :: "world \<Rightarrow> nat" where
  "recordedChecks w = count_list (trace w) CallSetLastSuccessfulUpdateCheck"

text \<open>
  The marker on disk: whether \<open>OpenFile\<close> with \<open>O_CREATE|O_TRUNC|O_WRONLY\<close> would open
  it in a file system, and whether it is a file that holds exactly the given bytes.
\<close>

definition markerOpens :: "'h deps \<Rightarrow> curator \<Rightarrow> filesystem \<Rightarrow> bool" where
  "markerOpens E c f =
     (fst (OpenTrunc f (DBDirectoryPath E (config c) @ [lastUpdateCheckFileName])) = None)"

definition markerHolds :: "'h deps \<Rightarrow> curator \<Rightarrow> filesystem \<Rightarrow> string \<Rightarrow> bool" where
  "markerHolds E c f bytes =
     (case lookupNode f (DBDirectoryPath E (config c) @ [lastUpdateCheckFileName]) of
        None \<Rightarrow> False
      | Some i \<Rightarrow> kind i = File bytes)"

subsection \<open>A concrete installation\<close>

text \<open>
  Concrete collaborators, files and configurations on which the theorems below are
  instantiated. The model version is 6; the hash of a payload is its length; the decoder,
  the timestamp parser and the formatter know the few strings the examples use.
\<close>

definition mkFile :: "string \<Rightarrow> inode" where
  "mkFile s = \<lparr>kind = File s, readable = True, writable = True\<rparr>"

definition descOld :: Description where
  "descOld = \<lparr>Built = 1793275200000000000, SchemaVersion = ''v6.0.0'', Checksum = ''len:7''\<rparr>"

definition descNew :: Description where
  "descNew = \<lparr>Built = 1793340000000000000, SchemaVersion = ''v6.0.0'', Checksum = ''len:8''\<rparr>"

definition demoHash :: "filesystem \<Rightarrow> path \<Rightarrow> string \<Rightarrow> error + bool \<times> string" where
  "demoHash f p expected =
     (case OpenRead f p of
        Inl e \<Rightarrow> Inl e
      | Inr h \<Rightarrow> (case readHandle p h of
                   Inl e \<Rightarrow> Inl e
                 | Inr bytes \<Rightarrow>
                     Inr (''len:'' @ dec (length bytes) = expected, ''len:'' @ dec (length bytes))))"

definition demoExists :: "filesystem \<Rightarrow> path \<Rightarrow> error + bool" where
  "demoExists f p =
     (case Stat f p of
        Inl e \<Rightarrow> if IsNotExist (Some e) then Inr False else Inl e
      | Inr i \<Rightarrow> Inr (kind i \<noteq> Dir))"

definition demoUnarchive :: "string \<Rightarrow> path \<Rightarrow> filesystem \<Rightarrow> error option \<times> filesystem" where
  "demoUnarchive archive dir f =
     (if archive = ''bundle.tar.gz''
      then (None, f\<lparr>nodes := nodes f @
              [(dir @ [''description.json''], mkFile ''{new}''),
               (dir @ [''vulnerability.db''], mkFile ''payload2'')]\<rparr>)
      else if archive = ''damaged.tar.gz''
      then (None, f\<lparr>nodes := nodes f @
              [(dir @ [''description.json''], mkFile ''{new}''),
               (dir @ [''vulnerability.db''], mkFile ''payl0ad'')]\<rparr>)
      else (Some (External ''format unrecognized by filename''), f))"

definition demoDeps :: "path deps" where
  "demoDeps =
     \<lparr>ModelVersion = 6,
      VulnerabilityDBFileName = ''vulnerability.db'',
      DescriptionFileName = ''description.json'',
      Model = (\<lambda>s. if s = ''v6.0.0'' then (6, True)
                    else if s = ''v5.0.0'' then (5, True) else (0, False)),
      NewReader = (\<lambda>f dir. case OpenRead f (dir @ [''vulnerability.db'']) of
                              Inl e \<Rightarrow> Inl e | Inr h \<Rightarrow> Inr dir),
      Exists = demoExists,
      ValidateByHash = demoHash,
      Decode = (\<lambda>bytes. if bytes = ''{old}'' then Inr descOld
                        else if bytes = ''{new}'' then Inr descNew
                        else if bytes = ''{v5}'' then Inr (descOld\<lparr>SchemaVersion := ''v5.0.0''\<rparr>)
                        else if bytes = ''{v?}'' then Inr (descOld\<lparr>SchemaVersion := ''latest''\<rparr>)
                        else Inl (External ''invalid character'')),
      Fscanf = (\<lambda>bytes. if bytes = [] then Inl (External ''EOF'') else Inr bytes),
      Parse = (\<lambda>s. if s = ''2026-10-30T11:30:00Z'' then Inr 1793359800000000000
                    else if s = ''0001-01-01T00:00:00Z'' then Inr zeroTime
                    else Inl (External ''cannot parse'')),
      Format = (\<lambda>t. if t = 1793361600000000000 then ''2026-10-30T12:00:00Z''
                     else if t = 1793372400000000000 then ''2026-10-30T15:00:00Z''
                     else ''1970-01-01T00:00:00Z''),
      Unarchive = demoUnarchive\<rparr>"

definition rootDir :: path where
  "rootDir = [''cache'', ''grype'', ''db'']"

definition activeDir :: path where
  "activeDir = [''cache'', ''grype'', ''db'', ''6'']"

definition stagedDir :: path where
  "stagedDir = [''cache'', ''grype'', ''grype-db-download'']"

text \<open>The root directory, empty: nothing was installed yet.\<close>

definition freshFs :: filesystem where
  "freshFs =
     \<lparr>nodes = [([], newDir), ([''cache''], newDir), ([''cache'', ''grype''], newDir),
               (rootDir, newDir)],
      diskFull = False\<rparr>"

text \<open>An installed database, built a day before \<open>noon\<close>, with its marker.\<close>

definition installedFs :: filesystem where
  "installedFs =
     \<lparr>nodes = [([], newDir), ([''cache''], newDir), ([''cache'', ''grype''], newDir),
               (rootDir, newDir), (activeDir, newDir),
               (activeDir @ [''description.json''], mkFile ''{old}''),
               (activeDir @ [''vulnerability.db''], mkFile ''payload''),
               (activeDir @ [''last_update_check''], mkFile ''2026-10-30T11:30:00Z'')],
      diskFull = False\<rparr>"

text \<open>The installation with a staged directory beside it whose payload was damaged.\<close>

definition damagedStagedFs :: filesystem where
  "damagedStagedFs =
     installedFs\<lparr>nodes := nodes installedFs @
       [(stagedDir, newDir),
        (stagedDir @ [''description.json''], mkFile ''{new}''),
        (stagedDir @ [''vulnerability.db''], mkFile ''payl0ad'')]\<rparr>"

text \<open>The installation without its payload file.\<close>

definition noPayloadFs :: filesystem where
  "noPayloadFs =
     \<lparr>nodes = [([], newDir), ([''cache''], newDir), ([''cache'', ''grype''], newDir),
               (rootDir, newDir), (activeDir, newDir),
               (activeDir @ [''description.json''], mkFile ''{old}'')],
      diskFull = False\<rparr>"

text \<open>The installation with a marker file the process may not write.\<close>

definition lockedMarkerFs :: filesystem where
  "lockedMarkerFs =
     installedFs\<lparr>nodes := AList.update (activeDir @ [''last_update_check''])
        \<lparr>kind = File ''2026-10-30T11:30:00Z'', readable = True, writable = False\<rparr>
        (nodes installedFs)\<rparr>"

text \<open>The default configuration, with \<open>rootDir\<close> as its root.\<close>

definition demoConfig :: Config where
  "demoConfig = DefaultConfig [''cache'']"

definition archiveNew :: Archive where
  "archiveNew = \<lparr>Description = descNew\<rparr>"

definition demoDownload :: "Archive \<Rightarrow> path \<Rightarrow> filesystem \<Rightarrow> (error + path) \<times> filesystem" where
  "demoDownload a parent f =
     (Inr (parent @ [''grype-db-download'']),
      f\<lparr>nodes := nodes f @
         [(parent @ [''grype-db-download''], newDir),
          (parent @ [''grype-db-download'', ''description.json''], mkFile ''{new}''),
          (parent @ [''grype-db-download'', ''vulnerability.db''], mkFile ''payload2'')]\<rparr>)"

definition damagedDownload ::
  "Archive \<Rightarrow> path \<Rightarrow> filesystem \<Rightarrow> (error + path) \<times> filesystem" where
  "damagedDownload a parent f =
     (Inr (parent @ [''grype-db-download'']),
      f\<lparr>nodes := nodes f @
         [(parent @ [''grype-db-download''], newDir),
          (parent @ [''grype-db-download'', ''description.json''], mkFile ''{new}''),
          (parent @ [''grype-db-download'', ''vulnerability.db''], mkFile ''payl0ad'')]\<rparr>)"

definition clientNoUpdate :: Client where
  "clientNoUpdate =
     \<lparr>IsUpdateAvailable = (\<lambda>cur. (None, None)),
      Download = (\<lambda>a parent f. (Inl (External ''connection refused''), f))\<rparr>"

definition clientOffer :: Client where
  "clientOffer =
     \<lparr>IsUpdateAvailable = (\<lambda>cur. (Some archiveNew, None)), Download = demoDownload\<rparr>"

definition clientDamaged :: Client where
  "clientDamaged =
     \<lparr>IsUpdateAvailable = (\<lambda>cur. (Some archiveNew, None)), Download = damagedDownload\<rparr>"

definition demoCurator :: curator where
  "demoCurator = \<lparr>client = clientNoUpdate, config = demoConfig\<rparr>"

text \<open>Noon of 2026-10-30, half an hour after the marker of \<open>installedFs\<close> was written.\<close>

definition noon :: Time where
  "noon = 1793361600000000000"

definition demoWorld :: world where
  "demoWorld = \<lparr>fs = installedFs, clock = noon, trace = []\<rparr>"

text \<open>A curator that accepts a database built at most one hour ago.\<close>

definition staleCurator :: curator where
  "staleCurator =
     \<lparr>client = clientNoUpdate, config = demoConfig\<lparr>MaxAllowedBuiltAge := 3600000000000\<rparr>\<rparr>"

text \<open>Three hours later, past the two hours between update checks.\<close>

definition afternoon :: Time where
  "afternoon = 1793372400000000000"

definition laterWorld :: world where
  "laterWorld = \<lparr>fs = installedFs, clock = afternoon, trace = []\<rparr>"

definition clientCheckFails :: Client where
  "clientCheckFails =
     \<lparr>IsUpdateAvailable = (\<lambda>cur. (None, Some (External ''no route to host''))),
      Download = (\<lambda>a parent f. (Inl (External ''connection refused''), f))\<rparr>"

definition clientOffline :: Client where
  "clientOffline =
     \<lparr>IsUpdateAvailable = (\<lambda>cur. (Some archiveNew, None)),
      Download = (\<lambda>a parent f. (Inl (External ''connection refused''), f))\<rparr>"

definition curatorWith :: "Client \<Rightarrow> curator" where
  "curatorWith cl = \<lparr>client = cl, config = demoConfig\<rparr>"

text \<open>A curator whose largest allowed age is the largest duration there is.\<close>

definition patientCurator :: curator where
  "patientCurator =
     \<lparr>client = clientNoUpdate,
      config = demoConfig\<lparr>MaxAllowedBuiltAge := 9223372036854775807\<rparr>\<rparr>"

definition freshWorld :: world where
  "freshWorld = \<lparr>fs = freshFs, clock = noon, trace = []\<rparr>"

definition lockedWorld :: world where
  "lockedWorld = \<lparr>fs = lockedMarkerFs, clock = afternoon, trace = []\<rparr>"

definition fullDiskWorld :: world where
  "fullDiskWorld = \<lparr>fs = installedFs\<lparr>diskFull := True\<rparr>, clock = afternoon, trace = []\<rparr>"

definition markerPath :: path where
  "markerPath = activeDir @ [''last_update_check'']"

definition tempDir0 :: path where
  "tempDir0 = rootDir @ [''tmp-v6-import0'']"

text \<open>An installation whose descriptor file holds the given bytes.\<close>

definition installedWith :: "string \<Rightarrow> filesystem" where
  "installedWith bytes =
     \<lparr>nodes = [([], newDir), ([''cache''], newDir), ([''cache'', ''grype''], newDir),
               (rootDir, newDir), (activeDir, newDir),
               (activeDir @ [''description.json''], mkFile bytes),
               (activeDir @ [''vulnerability.db''], mkFile ''payload'')],
      diskFull = False\<rparr>"

definition ageOffCurator :: curator where
  "ageOffCurator = \<lparr>client = clientNoUpdate, config = demoConfig\<lparr>ValidateAge := False\<rparr>\<rparr>"

text \<open>The installation with another node at the marker's path, and at another hour.\<close>

definition withMarker :: "inode \<Rightarrow> Time \<Rightarrow> world" where
  "withMarker i t =
     \<lparr>fs = installedFs\<lparr>nodes := AList.update markerPath i (nodes installedFs)\<rparr>,
      clock = t, trace = []\<rparr>"

definition unthrottledCurator :: curator where
  "unthrottledCurator =
     \<lparr>client = clientNoUpdate, config = demoConfig\<lparr>UpdateCheckMaxFrequency := 0\<rparr>\<rparr>"

lemmas demo_defs =
  unthrottledCurator_def withMarker_def ageOffCurator_def installedWith_def tempDir0_def
  markerPath_def fullDiskWorld_def lockedWorld_def freshWorld_def patientCurator_def
  curatorWith_def clientOffline_def clientCheckFails_def laterWorld_def afternoon_def
  staleCurator_def demoWorld_def noon_def demoCurator_def clientNoUpdate_def clientOffer_def
  clientDamaged_def demoDownload_def damagedDownload_def
  archiveNew_def demoConfig_def DefaultConfig_def lockedMarkerFs_def noPayloadFs_def
  damagedStagedFs_def installedFs_def freshFs_def stagedDir_def activeDir_def rootDir_def
  demoDeps_def demoUnarchive_def demoExists_def demoHash_def descNew_def descOld_def
  mkFile_def

lemmas eval_defs =
  activate_def removeAllOrLog_def Delete_def
  setLastSuccessfulUpdateCheck_def isUpdateCheckAllowed_def durationSinceUpdateCheck_def
  validate_def ensureNotStale_def validateIntegrity_def
  readDatabaseDescription_def DBFilePath_def DBDirectoryPath_def lastUpdateCheckFileName_def
  logCall_def recordedChecks_def markerOpens_def markerHolds_def lastCheckMarker_def markerTimestamp_def markerBytes_def
  Let_def

lemmas model_defs = Update_def Import_def Reader_def eval_defs

lemmas os_defs =
  MkdirTemp_def tempCandidates_def Itoa_def dec.simps Rename_def moveEntries_def
  hasChildren_def RemoveAll_def stuckEntries_def WriteString_def OpenTrunc_def newDir_def
  newFile_def readHandle_def OpenRead_def errOf_def Stat_def parentWritable_def
  searchable_def lookupNode_def gtDuration_def IsZero_def zeroTime_def Sub_def
  maxDuration_def minDuration_def

section \<open>Properties\<close>

subsection \<open>Auxiliary facts\<close>

lemma demo_activeDir: "DBDirectoryPath demoDeps demoConfig = activeDir"
  by (simp add: DBDirectoryPath_def demoDeps_def demoConfig_def DefaultConfig_def activeDir_def
      Itoa_def dec.simps)

lemma IsNotExist_Stat:
  "IsNotExist (errOf (Stat f p)) = (Stat f p = Inl (PathError ENOENT p))"
  by (simp add: Stat_def errOf_def split: option.splits)

lemma sint_word_of_int_64:
  "- (2 ^ 63) \<le> x \<Longrightarrow> x < 2 ^ 63 \<Longrightarrow> sint (word_of_int x :: 64 word) = x"
  by (simp add: sint_sbintrunc' signed_take_bit_int_eq_self)

lemma Sub_exact:
  assumes "minDuration \<le> t - u" and "t - u \<le> maxDuration"
  shows "sint (Sub t u) = t - u"
proof -
  have "sint (word_of_int (t - u) :: 64 word) = t - u"
    using assms
    by (intro sint_word_of_int_64) (simp_all add: minDuration_def maxDuration_def)
  moreover have "Sub t u = word_of_int (t - u)"
    using assms by (simp add: Sub_def del: of_int_diff)
  ultimately show ?thesis by (simp del: of_int_diff)
qed

subsection \<open>Activation\<close>

text \<open>
  Claim C1. When integrity validation of the staged directory fails, \<open>activate\<close> returns
  that very error and the file system it leaves is the one it was given: nothing at the
  active path (or anywhere else) is deleted, renamed or written, so the active directory
  validates afterwards exactly as it did before.
\<close>

theorem activate_keeps_active_on_integrity_failure:
  assumes "validateIntegrity E c f staged = Inl err"
  shows "activate E c f staged = (Some err, f) \<and>
         validateIntegrity E c (snd (activate E c f staged)) (DBDirectoryPath E (config c)) =
           validateIntegrity E c f (DBDirectoryPath E (config c))"
  using assms by (simp add: activate_def)

lemma damaged_staged_fails:
  "validateIntegrity demoDeps demoCurator damagedStagedFs stagedDir =
     Inl (BadDbChecksum (stagedDir @ [''vulnerability.db'']) ''len:8'' ''len:7'')"
  by (simp add: model_defs os_defs demo_defs)

lemma damaged_active_ok:
  "validateIntegrity demoDeps demoCurator damagedStagedFs activeDir = Inr descOld"
  by (simp add: model_defs os_defs demo_defs)

theorem activate_keeps_active_on_integrity_failure_witness:
  "validateIntegrity demoDeps demoCurator damagedStagedFs stagedDir =
     Inl (BadDbChecksum (stagedDir @ [''vulnerability.db'']) ''len:8'' ''len:7'') \<and>
   activate demoDeps demoCurator damagedStagedFs stagedDir =
     (Some (BadDbChecksum (stagedDir @ [''vulnerability.db'']) ''len:8'' ''len:7''),
      damagedStagedFs) \<and>
   validateIntegrity demoDeps demoCurator
     (snd (activate demoDeps demoCurator damagedStagedFs stagedDir)) activeDir = Inr descOld"
  using activate_keeps_active_on_integrity_failure [OF damaged_staged_fails]
    damaged_staged_fails damaged_active_ok
  by (simp add: demo_activeDir demoCurator_def)

subsection \<open>Reader\<close>

text \<open>
  Claim C2, as stated, fails: \<open>Reader\<close> opens the database first and ends with
  \<open>return s, c.validate()\<close>, so a validation error comes back together with the reader
  that was opened. Here the installed database is a day old and at most an hour is
  allowed.
\<close>

theorem Reader_hands_back_reader_with_error:
  "validate demoDeps staleCurator demoWorld =
     Some (DatabaseTooOld 86400000000000 3600000000000) \<and>
   Reader demoDeps staleCurator demoWorld =
     (Some activeDir, Some (DatabaseTooOld 86400000000000 3600000000000))"
  by (simp add: model_defs os_defs demo_defs)

text \<open>
  Claim C2, amended. Whenever \<open>validate\<close> fails, \<open>Reader\<close> returns an error: the error of
  \<open>NewReader\<close> and no reader when the database could not be opened, and otherwise the
  error of \<open>validate\<close>, next to the reader that \<open>NewReader\<close> opened.
\<close>

theorem Reader_returns_error_when_validate_fails:
  assumes "validate E c w = Some err"
  shows "Reader E c w =
    (case NewReader E (fs w) (DBDirectoryPath E (config c)) of
       Inl e \<Rightarrow> (None, Some e)
     | Inr s \<Rightarrow> (Some s, Some err))"
  using assms by (simp add: Reader_def split: sum.splits)

lemma stale_validate_fails:
  "validate demoDeps staleCurator demoWorld =
     Some (DatabaseTooOld 86400000000000 3600000000000)"
  by (simp add: model_defs os_defs demo_defs)

theorem Reader_returns_error_when_validate_fails_witness:
  "validate demoDeps staleCurator demoWorld =
     Some (DatabaseTooOld 86400000000000 3600000000000) \<and>
   snd (Reader demoDeps staleCurator demoWorld) =
     Some (DatabaseTooOld 86400000000000 3600000000000)"
  using Reader_returns_error_when_validate_fails [OF stale_validate_fails] stale_validate_fails
  by (simp add: model_defs os_defs demo_defs)

subsection \<open>The update-check throttle\<close>

text \<open>
  Claim C3. \<open>isUpdateCheckAllowed\<close> is true when \<open>UpdateCheckMaxFrequency\<close> is zero, when
  the marker file is absent, and when it is there but cannot be read or parsed; when the
  marker records an instant \<open>t\<close>, it is true exactly when the elapsed duration
  \<open>time.Since(t)\<close> is strictly greater than \<open>UpdateCheckMaxFrequency\<close>. The elapsed
  duration is the \<open>time.Duration\<close> that Go computes, \<open>Sub (clock w) t\<close>; by \<open>Sub_exact\<close>
  it is the difference of the two instants whenever that fits into an \<open>int64\<close>.
\<close>

theorem isUpdateCheckAllowed_spec:
  "isUpdateCheckAllowed E c w =
     (UpdateCheckMaxFrequency (config c) = 0 \<or>
      (case lastCheckMarker E c (fs w) of
         MarkerAbsent \<Rightarrow> True
       | MarkerUnusable \<Rightarrow> True
       | MarkerRecords t \<Rightarrow>
           gtDuration (Sub (clock w) t) (UpdateCheckMaxFrequency (config c))))"
  by (auto simp add: isUpdateCheckAllowed_def durationSinceUpdateCheck_def lastCheckMarker_def
      markerBytes_def markerTimestamp_def IsNotExist_Stat OpenRead_def readHandle_def
      IsZero_def Let_def
      split: sum.splits option.splits node.splits if_splits)

theorem isUpdateCheckAllowed_spec_witness:
  "isUpdateCheckAllowed demoDeps unthrottledCurator demoWorld \<and>
   lastCheckMarker demoDeps demoCurator freshFs = MarkerAbsent \<and>
   isUpdateCheckAllowed demoDeps demoCurator freshWorld \<and>
   lastCheckMarker demoDeps demoCurator (fs (withMarker (mkFile ''last tuesday'') noon))
     = MarkerUnusable \<and>
   isUpdateCheckAllowed demoDeps demoCurator (withMarker (mkFile ''last tuesday'') noon) \<and>
   isUpdateCheckAllowed demoDeps demoCurator (withMarker (mkFile []) noon) \<and>
   isUpdateCheckAllowed demoDeps demoCurator (withMarker (mkFile ''0001-01-01T00:00:00Z'') noon) \<and>
   isUpdateCheckAllowed demoDeps demoCurator
     (withMarker \<lparr>kind = File ''2026-10-30T11:30:00Z'', readable = False, writable = True\<rparr>
        noon) \<and>
   lastCheckMarker demoDeps demoCurator installedFs = MarkerRecords 1793359800000000000 \<and>
   \<not> isUpdateCheckAllowed demoDeps demoCurator demoWorld \<and>
   \<not> isUpdateCheckAllowed demoDeps demoCurator
       (withMarker (mkFile ''2026-10-30T11:30:00Z'') 1793367000000000000) \<and>
   isUpdateCheckAllowed demoDeps demoCurator
     (withMarker (mkFile ''2026-10-30T11:30:00Z'') 1793367000000000001)"
  using isUpdateCheckAllowed_spec [of demoDeps unthrottledCurator demoWorld]
    isUpdateCheckAllowed_spec [of demoDeps demoCurator freshWorld]
    isUpdateCheckAllowed_spec [of demoDeps demoCurator "withMarker (mkFile ''last tuesday'') noon"]
    isUpdateCheckAllowed_spec [of demoDeps demoCurator "withMarker (mkFile []) noon"]
    isUpdateCheckAllowed_spec [of demoDeps demoCurator
      "withMarker (mkFile ''0001-01-01T00:00:00Z'') noon"]
    isUpdateCheckAllowed_spec [of demoDeps demoCurator
      "withMarker \<lparr>kind = File ''2026-10-30T11:30:00Z'', readable = False, writable = True\<rparr>
         noon"]
    isUpdateCheckAllowed_spec [of demoDeps demoCurator demoWorld]
    isUpdateCheckAllowed_spec [of demoDeps demoCurator
      "withMarker (mkFile ''2026-10-30T11:30:00Z'') 1793367000000000000"]
    isUpdateCheckAllowed_spec [of demoDeps demoCurator
      "withMarker (mkFile ''2026-10-30T11:30:00Z'') 1793367000000000001"]
  by (simp add: lastCheckMarker_def markerTimestamp_def markerBytes_def DBDirectoryPath_def
      lastUpdateCheckFileName_def Let_def os_defs demo_defs)

subsection \<open>Update\<close>

text \<open>
  Claim C4. When the throttle denies the check, \<open>Update\<close> returns \<open>(false, nil)\<close> and
  the world is untouched: the log of calls to the client is as it was (neither
  \<open>IsUpdateAvailable\<close> nor \<open>Download\<close> was called) and so is every file. The result is the
  one of a call that was allowed to check and found no update.
\<close>

theorem Update_throttled_is_silent:
  assumes "\<not> isUpdateCheckAllowed E c w"
      and "isUpdateCheckAllowed E c' w'"
      and "readDatabaseDescription E (fs w') (DBDirectoryPath E (config c')) = Inr cur"
      and "fst (IsUpdateAvailable (client c') cur) = None"
  shows "Update E c w = ((False, None), w) \<and> fst (Update E c' w') = fst (Update E c w)"
  using assms by (auto simp add: Update_def Let_def split: prod.splits)

lemma demo_throttled: "\<not> isUpdateCheckAllowed demoDeps demoCurator demoWorld"
  by (simp add: model_defs os_defs demo_defs)

lemma later_allowed: "isUpdateCheckAllowed demoDeps demoCurator laterWorld"
  by (simp add: model_defs os_defs demo_defs)

lemma later_current:
  "readDatabaseDescription demoDeps (fs laterWorld) (DBDirectoryPath demoDeps (config demoCurator))
     = Inr (Some descOld)"
  by (simp add: model_defs os_defs demo_defs)

lemma demo_no_update: "fst (IsUpdateAvailable (client demoCurator) (Some descOld)) = None"
  by (simp add: demo_defs)

theorem Update_throttled_is_silent_witness:
  "\<not> isUpdateCheckAllowed demoDeps demoCurator demoWorld \<and>
   isUpdateCheckAllowed demoDeps demoCurator laterWorld \<and>
   Update demoDeps demoCurator demoWorld = ((False, None), demoWorld) \<and>
   fst (Update demoDeps demoCurator laterWorld) = (False, None)"
  using Update_throttled_is_silent [OF demo_throttled later_allowed later_current demo_no_update]
    demo_throttled later_allowed
  by simp

subsection \<open>The log of calls and the marker\<close>

lemma fs_logCall: "fs (logCall ev w) = fs w"
  by (simp add: logCall_def)

lemma trace_logCall: "trace (logCall ev w) = trace w @ [ev]"
  by (simp add: logCall_def)

lemma recordedChecks_logCall:
  "recordedChecks (logCall ev w) =
     recordedChecks w + (if ev = CallSetLastSuccessfulUpdateCheck then 1 else 0)"
  by (simp add: recordedChecks_def logCall_def)

lemma recordedChecks_fs_update: "recordedChecks (w\<lparr>fs := f\<rparr>) = recordedChecks w"
  by (simp add: recordedChecks_def)

lemma trace_setLast:
  "trace (setLastSuccessfulUpdateCheck E c w) = trace w @ [CallSetLastSuccessfulUpdateCheck]"
  by (simp add: setLastSuccessfulUpdateCheck_def logCall_def Let_def
      split: prod.splits option.splits)

lemma recordedChecks_setLast:
  "recordedChecks (setLastSuccessfulUpdateCheck E c w) = Suc (recordedChecks w)"
  by (simp add: recordedChecks_def trace_setLast)

lemma OpenTrunc_failure_unchanged:
  "fst (OpenTrunc f p) = Some e \<Longrightarrow> snd (OpenTrunc f p) = f"
  by (auto simp add: OpenTrunc_def split: if_splits option.splits node.splits)

lemma setLast_open_failure:
  assumes "fst (OpenTrunc (fs w) (DBDirectoryPath E (config c) @ [lastUpdateCheckFileName]))
             = Some e"
  shows "setLastSuccessfulUpdateCheck E c w = logCall CallSetLastSuccessfulUpdateCheck w"
  using assms OpenTrunc_failure_unchanged [OF assms]
  by (auto simp add: setLastSuccessfulUpdateCheck_def logCall_def Let_def
      split: prod.splits option.splits)

lemma diskFull_OpenTrunc: "diskFull (snd (OpenTrunc f p)) = diskFull f"
  by (auto simp add: OpenTrunc_def split: if_splits option.splits node.splits)


lemma setLast_write_failure:
  assumes "fst (OpenTrunc (fs w) (DBDirectoryPath E (config c) @ [lastUpdateCheckFileName])) = None"
      and "diskFull (fs w)"
  shows "fs (setLastSuccessfulUpdateCheck E c w) =
           snd (OpenTrunc (fs w) (DBDirectoryPath E (config c) @ [lastUpdateCheckFileName]))"
proof -
  let ?p = "DBDirectoryPath E (config c) @ [lastUpdateCheckFileName]"
  obtain f1 where o: "OpenTrunc (fs w) ?p = (None, f1)"
    using assms(1) by (cases "OpenTrunc (fs w) ?p") simp
  then have "diskFull f1"
    using assms(2) diskFull_OpenTrunc [of "fs w" ?p] by simp
  with o show ?thesis
    by (simp add: setLastSuccessfulUpdateCheck_def logCall_def Let_def WriteString_def)
qed


lemma later_allowed_any: "isUpdateCheckAllowed demoDeps (curatorWith cl) laterWorld"
  by (simp add: eval_defs os_defs demo_defs)

lemma later_current_any:
  "readDatabaseDescription demoDeps (fs laterWorld)
     (DBDirectoryPath demoDeps (config (curatorWith cl))) = Inr (Some descOld)"
  by (simp add: eval_defs os_defs demo_defs)











lemma check_damaged:
  "IsUpdateAvailable (client (curatorWith clientDamaged)) (Some descOld) =
     (Some archiveNew, None)"
  by (simp add: demo_defs)












text \<open>
  Claim C9. \<open>setLastSuccessfulUpdateCheck\<close> has no result, so nothing of the marker
  write can reach the caller: whenever \<open>Update\<close> has called it, with the write succeeding
  or failing, \<open>Update\<close> returns \<open>(changed, nil)\<close>, where \<open>changed\<close> says whether the
  client offered a candidate. When the marker cannot be opened, the call changes no file;
  when it was opened and the write fails, the files are as \<open>OpenFile\<close> left them.
\<close>

theorem Update_result_ignores_marker_write:
  assumes "recordedChecks (snd (Update E c w)) \<noteq> recordedChecks w"
  shows "(\<exists>cur. readDatabaseDescription E (fs w) (DBDirectoryPath E (config c)) = Inr cur \<and>
            fst (Update E c w) = (fst (IsUpdateAvailable (client c) cur) \<noteq> None, None)) \<and>
         (\<forall>w1 e. fst (OpenTrunc (fs w1) (DBDirectoryPath E (config c) @ [lastUpdateCheckFileName]))
                    = Some e \<longrightarrow>
                  setLastSuccessfulUpdateCheck E c w1 =
                    logCall CallSetLastSuccessfulUpdateCheck w1) \<and>
         (\<forall>w1. fst (OpenTrunc (fs w1) (DBDirectoryPath E (config c) @ [lastUpdateCheckFileName]))
                    = None \<and> diskFull (fs w1) \<longrightarrow>
                fs (setLastSuccessfulUpdateCheck E c w1) =
                  snd (OpenTrunc (fs w1)
                        (DBDirectoryPath E (config c) @ [lastUpdateCheckFileName])))"
proof (intro conjI)
  show "\<exists>cur. readDatabaseDescription E (fs w) (DBDirectoryPath E (config c)) = Inr cur \<and>
          fst (Update E c w) = (fst (IsUpdateAvailable (client c) cur) \<noteq> None, None)"
    using assms
    by (auto simp add: Update_def Let_def recordedChecks_setLast recordedChecks_logCall
        recordedChecks_fs_update fs_logCall
        split: option.splits prod.splits sum.splits if_splits)
  show "\<forall>w1 e. fst (OpenTrunc (fs w1) (DBDirectoryPath E (config c) @ [lastUpdateCheckFileName]))
                 = Some e \<longrightarrow>
               setLastSuccessfulUpdateCheck E c w1 = logCall CallSetLastSuccessfulUpdateCheck w1"
    using setLast_open_failure by blast
  show "\<forall>w1. fst (OpenTrunc (fs w1) (DBDirectoryPath E (config c) @ [lastUpdateCheckFileName]))
                 = None \<and> diskFull (fs w1) \<longrightarrow>
             fs (setLastSuccessfulUpdateCheck E c w1) =
               snd (OpenTrunc (fs w1) (DBDirectoryPath E (config c) @ [lastUpdateCheckFileName]))"
    using setLast_write_failure by blast
qed

lemma locked_called:
  "recordedChecks (snd (Update demoDeps demoCurator lockedWorld)) \<noteq> recordedChecks lockedWorld"
  by (simp add: model_defs os_defs demo_defs)

theorem Update_result_ignores_marker_write_witness:
  "recordedChecks (snd (Update demoDeps demoCurator lockedWorld)) \<noteq> recordedChecks lockedWorld \<and>
   fst (OpenTrunc lockedMarkerFs markerPath) = Some (PathError EACCES markerPath) \<and>
   fst (Update demoDeps demoCurator lockedWorld) = (False, None) \<and>
   fs (snd (Update demoDeps demoCurator lockedWorld)) = lockedMarkerFs \<and>
   fst (Update demoDeps demoCurator fullDiskWorld) = (False, None) \<and>
   lookupNode (fs (snd (Update demoDeps demoCurator fullDiskWorld))) markerPath =
     Some (mkFile []) \<and>
   fst (Update demoDeps demoCurator laterWorld) = (False, None) \<and>
   lookupNode (fs (snd (Update demoDeps demoCurator laterWorld))) markerPath =
     Some (mkFile ''2026-10-30T15:00:00Z'')"
  using Update_result_ignores_marker_write [OF locked_called] locked_called
  by (simp add: model_defs os_defs demo_defs)

text \<open>
  Claim C10. When \<open>file.Exists\<close> reports the descriptor file absent,
  \<open>readDatabaseDescription\<close> returns \<open>(nil, nil)\<close>, whereas a descriptor that is there and
  does not decode gives an error. So on a fresh root (no descriptor and no marker in the
  active directory) \<open>Update\<close> passes the throttle and the read of the current descriptor,
  and its first call to the outside is \<open>IsUpdateAvailable(nil)\<close>; it never returns the
  error of the read step.
\<close>

theorem fresh_root_update_asks_client:
  assumes "Exists E (fs w) (DBDirectoryPath E (config c) @ [DescriptionFileName E]) = Inr False"
      and "Stat (fs w) (DBDirectoryPath E (config c) @ [lastUpdateCheckFileName]) =
             Inl (PathError ENOENT (DBDirectoryPath E (config c) @ [lastUpdateCheckFileName]))"
  shows "readDatabaseDescription E (fs w) (DBDirectoryPath E (config c)) = Inr None \<and>
         (\<forall>f dir. Exists E f (dir @ [DescriptionFileName E]) = Inr False \<longrightarrow>
            readDatabaseDescription E f dir = Inr None) \<and>
         (\<forall>f dir bytes e.
            Exists E f (dir @ [DescriptionFileName E]) = Inr True \<and>
            OpenRead f (dir @ [DescriptionFileName E]) = Inr (File bytes) \<and>
            Decode E bytes = Inl e \<longrightarrow>
            readDatabaseDescription E f dir =
              Inl (UnableToParseMetadata (dir @ [DescriptionFileName E]) e)) \<and>
         (\<exists>rest. trace (snd (Update E c w)) = trace w @ CallIsUpdateAvailable None # rest) \<and>
         (\<forall>e. snd (fst (Update E c w)) \<noteq> Some (UnableToReadCurrentMetadata e))"
proof -
  have r: "readDatabaseDescription E (fs w) (DBDirectoryPath E (config c)) = Inr None"
    using assms(1) by (simp add: readDatabaseDescription_def)
  have a: "isUpdateCheckAllowed E c w"
    using assms(2)
    by (simp add: isUpdateCheckAllowed_def durationSinceUpdateCheck_def IsNotExist_Stat)
  have u: "(\<exists>rest. trace (snd (Update E c w)) = trace w @ CallIsUpdateAvailable None # rest) \<and>
           (\<forall>e. snd (fst (Update E c w)) \<noteq> Some (UnableToReadCurrentMetadata e))"
    using r a
    by (auto simp add: Update_def Let_def fs_logCall trace_logCall trace_setLast
        split: option.splits prod.splits sum.splits)
  show ?thesis
    using r u by (simp add: readDatabaseDescription_def readHandle_def)
qed

lemma fresh_no_descriptor:
  "Exists demoDeps (fs freshWorld)
     (DBDirectoryPath demoDeps (config (curatorWith clientOffer)) @ [DescriptionFileName demoDeps])
   = Inr False"
  by (simp add: eval_defs os_defs demo_defs)

lemma fresh_no_marker:
  "Stat (fs freshWorld)
     (DBDirectoryPath demoDeps (config (curatorWith clientOffer)) @ [lastUpdateCheckFileName]) =
   Inl (PathError ENOENT
     (DBDirectoryPath demoDeps (config (curatorWith clientOffer)) @ [lastUpdateCheckFileName]))"
  by (simp add: eval_defs os_defs demo_defs)

theorem fresh_root_update_asks_client_witness:
  "lookupNode (fs freshWorld) activeDir = None \<and>
   readDatabaseDescription demoDeps (fs freshWorld) activeDir = Inr None \<and>
   readDatabaseDescription demoDeps (installedWith ''not json'') activeDir =
     Inl (UnableToParseMetadata (activeDir @ [''description.json''])
            (External ''invalid character'')) \<and>
   fst (Update demoDeps (curatorWith clientOffer) freshWorld) = (True, None) \<and>
   trace (snd (Update demoDeps (curatorWith clientOffer) freshWorld)) =
     [CallIsUpdateAvailable None, CallDownload archiveNew [''cache'', ''grype''],
      CallSetLastSuccessfulUpdateCheck] \<and>
   validate demoDeps (curatorWith clientOffer)
     (snd (Update demoDeps (curatorWith clientOffer) freshWorld)) = None"
  using fresh_root_update_asks_client [OF fresh_no_descriptor fresh_no_marker]
  by (simp add: model_defs os_defs demo_defs)

subsection \<open>Staleness\<close>

lemma sint_bounds64: "- (2 ^ 63) \<le> sint (D :: 64 word)" "sint (D :: 64 word) < 2 ^ 63"
  using sint_ge [of D] sint_lt [of D] by simp_all

lemma Sub_back: "Sub now (now - sint (D :: 64 word)) = D"
  using sint_bounds64 [of D] by (simp add: Sub_def maxDuration_def minDuration_def)

lemma sint_succ: "sint (D :: 64 word) < maxDuration \<Longrightarrow> sint (D + 1) = sint D + 1"
  using sint_bounds64 [of D]
  by (simp add: maxDuration_def sint_word_ariths signed_take_bit_int_eq_self)

lemma Sub_back_one:
  "sint (D :: 64 word) < maxDuration \<Longrightarrow> Sub now (now - sint D - 1) = D + 1"
  using sint_bounds64 [of D] by (simp add: Sub_def maxDuration_def minDuration_def)

text \<open>
  Claim C6, as stated, fails when \<open>MaxAllowedBuiltAge\<close> is the largest duration,
  \<open>2^63 - 1\<close> nanoseconds: for a database built one nanosecond earlier than that before
  now, \<open>now.Sub\<close> saturates at the largest duration, the age is not greater than the
  maximum, and \<open>ensureNotStale\<close> returns \<open>nil\<close>.
\<close>

theorem ensureNotStale_saturates:
  "ValidateAge (config patientCurator) \<and>
   sint (MaxAllowedBuiltAge (config patientCurator)) = 9223372036854775807 \<and>
   ensureNotStale patientCurator demoWorld
     (Some (descOld\<lparr>Built := clock demoWorld - 9223372036854775807 - 1\<rparr>)) = None"
  by (simp add: model_defs os_defs demo_defs)

text \<open>
  Claim C6, amended. With age validation enabled and \<open>MaxAllowedBuiltAge = D\<close>, a
  database built exactly at \<open>now - D\<close> is not stale; if \<open>D\<close> is less than the largest
  duration, one built at \<open>now - D - 1ns\<close> is stale, and the error carries the age
  \<open>D + 1ns\<close> and the maximum \<open>D\<close>. With age validation disabled every descriptor passes.
\<close>

theorem ensureNotStale_boundary:
  "(ValidateAge (config c) \<longrightarrow>
      ensureNotStale c w
        (Some (d\<lparr>Built := clock w - sint (MaxAllowedBuiltAge (config c))\<rparr>)) = None \<and>
      (sint (MaxAllowedBuiltAge (config c)) < maxDuration \<longrightarrow>
         ensureNotStale c w
           (Some (d\<lparr>Built := clock w - sint (MaxAllowedBuiltAge (config c)) - 1\<rparr>)) =
         Some (DatabaseTooOld (MaxAllowedBuiltAge (config c) + 1)
                 (MaxAllowedBuiltAge (config c))))) \<and>
   (\<not> ValidateAge (config c) \<longrightarrow> ensureNotStale c w (Some d) = None)"
  by (simp add: ensureNotStale_def Sub_back Sub_back_one gtDuration_def sint_succ)

theorem ensureNotStale_boundary_witness:
  "ValidateAge (config demoCurator) \<and>
   sint (MaxAllowedBuiltAge (config demoCurator)) < maxDuration \<and>
   ensureNotStale demoCurator demoWorld
     (Some (descOld\<lparr>Built := noon - 432000000000000\<rparr>)) = None \<and>
   ensureNotStale demoCurator demoWorld
     (Some (descOld\<lparr>Built := noon - 432000000000000 - 1\<rparr>)) =
     Some (DatabaseTooOld 432000000000001 432000000000000) \<and>
   \<not> ValidateAge (config ageOffCurator) \<and>
   ensureNotStale ageOffCurator demoWorld (Some (descOld\<lparr>Built := 0\<rparr>)) = None"
  using ensureNotStale_boundary [of demoCurator demoWorld descOld]
    ensureNotStale_boundary [of ageOffCurator demoWorld "descOld\<lparr>Built := 0\<rparr>"]
  by (simp add: demo_defs maxDuration_def)

subsection \<open>Integrity\<close>

text \<open>
  Claim C7, as stated, fails in its last clause: with checksum validation enabled,
  \<open>file.ValidateByHash\<close> can itself return an error (here the payload file is missing),
  and \<open>validateIntegrity\<close> then returns that error, although the descriptor decodes, no
  differing digest was computed and the schema version is the supported one.
\<close>

theorem validateIntegrity_hash_error:
  "readDatabaseDescription demoDeps noPayloadFs activeDir = Inr (Some descOld) \<and>
   ValidateChecksum (config demoCurator) \<and>
   ValidateByHash demoDeps noPayloadFs (activeDir @ [VulnerabilityDBFileName demoDeps]) (Checksum descOld) =
     Inl (PathError ENOENT (activeDir @ [''vulnerability.db''])) \<and>
   Model demoDeps (SchemaVersion descOld) = (ModelVersion demoDeps, True) \<and>
   validateIntegrity demoDeps demoCurator noPayloadFs activeDir =
     Inl (PathError ENOENT (activeDir @ [''vulnerability.db'']))"
  by (simp add: model_defs os_defs demo_defs)

text \<open>
  Claim C7, amended. \<open>validateIntegrity\<close> fails with an error naming the directory when
  the descriptor is missing or cannot be read or decoded. For a descriptor that was read:
  with checksum validation enabled, an error of \<open>ValidateByHash\<close> is returned as it is,
  and a digest that differs gives an error with the payload path, the expected and the
  actual digest; when the checksum is not validated or matches, a schema version that maps
  to no model or to another model than the supported one gives the "unsupported database
  version" error with both numbers, and otherwise the descriptor is returned.
\<close>

theorem validateIntegrity_outcomes:
  "(Exists E f (dir @ [DescriptionFileName E]) = Inr False \<longrightarrow>
      validateIntegrity E c f dir = Inl (DatabaseMetadataNotFound dir)) \<and>
   (\<forall>e. readDatabaseDescription E f dir = Inl e \<longrightarrow>
      validateIntegrity E c f dir = Inl (FailedToParseDatabaseMetadata dir e)) \<and>
   (\<forall>m. readDatabaseDescription E f dir = Inr (Some m) \<longrightarrow>
      (\<forall>e. ValidateChecksum (config c) \<and>
           ValidateByHash E f (dir @ [VulnerabilityDBFileName E]) (Checksum m) = Inl e \<longrightarrow>
           validateIntegrity E c f dir = Inl e) \<and>
      (\<forall>actual. ValidateChecksum (config c) \<and>
           ValidateByHash E f (dir @ [VulnerabilityDBFileName E]) (Checksum m) = Inr (False, actual) \<longrightarrow>
           validateIntegrity E c f dir =
             Inl (BadDbChecksum (dir @ [VulnerabilityDBFileName E]) (Checksum m) actual)) \<and>
      (\<not> ValidateChecksum (config c) \<or>
       (\<exists>actual. ValidateByHash E f (dir @ [VulnerabilityDBFileName E]) (Checksum m) = Inr (True, actual)) \<longrightarrow>
         validateIntegrity E c f dir =
           (if \<not> snd (Model E (SchemaVersion m)) \<or> fst (Model E (SchemaVersion m)) \<noteq> ModelVersion E
            then Inl (UnsupportedDatabaseVersion (fst (Model E (SchemaVersion m))) (ModelVersion E))
            else Inr m)))"
  by (auto simp add: validateIntegrity_def readDatabaseDescription_def Let_def
      split: prod.splits sum.splits option.splits)

theorem validateIntegrity_outcomes_witness:
  "validateIntegrity demoDeps demoCurator freshFs activeDir = Inl (DatabaseMetadataNotFound activeDir) \<and>
   validateIntegrity demoDeps demoCurator (installedWith ''not json'') activeDir =
     Inl (FailedToParseDatabaseMetadata activeDir
           (UnableToParseMetadata (activeDir @ [''description.json'']) (External ''invalid character''))) \<and>
   validateIntegrity demoDeps demoCurator noPayloadFs activeDir =
     Inl (PathError ENOENT (activeDir @ [''vulnerability.db''])) \<and>
   validateIntegrity demoDeps demoCurator damagedStagedFs stagedDir =
     Inl (BadDbChecksum (stagedDir @ [''vulnerability.db'']) ''len:8'' ''len:7'') \<and>
   validateIntegrity demoDeps demoCurator (installedWith ''{v5}'') activeDir =
     Inl (UnsupportedDatabaseVersion 5 6) \<and>
   validateIntegrity demoDeps demoCurator (installedWith ''{v?}'') activeDir =
     Inl (UnsupportedDatabaseVersion 0 6) \<and>
   validateIntegrity demoDeps demoCurator installedFs activeDir = Inr descOld"
  using validateIntegrity_outcomes [of demoDeps freshFs activeDir demoCurator]
    validateIntegrity_outcomes [of demoDeps "installedWith ''not json''" activeDir demoCurator]
    validateIntegrity_outcomes [of demoDeps noPayloadFs activeDir demoCurator]
    validateIntegrity_outcomes [of demoDeps damagedStagedFs stagedDir demoCurator]
    validateIntegrity_outcomes [of demoDeps "installedWith ''{v5}''" activeDir demoCurator]
    validateIntegrity_outcomes [of demoDeps "installedWith ''{v?}''" activeDir demoCurator]
    validateIntegrity_outcomes [of demoDeps installedFs activeDir demoCurator]
  by (simp add: readDatabaseDescription_def Let_def os_defs demo_defs)

subsection \<open>What is left of a staging directory\<close>

lemma map_of_filter_key:
  "map_of (filter (\<lambda>(k, v). P k) xs) k = (if P k then map_of xs k else None)"
  by (induction xs) auto

lemma RemoveAll_outside:
  assumes "\<not> prefix p q"
  shows "lookupNode (snd (RemoveAll f p)) q = lookupNode f q"
proof (cases "searchable f p")
  case False
  then show ?thesis by (simp add: RemoveAll_def)
next
  case True
  let ?keep = "\<lambda>k. \<not> prefix p k \<or> list_ex (\<lambda>s. prefix k s) (stuckEntries f p)"
  have "nodes (snd (RemoveAll f p)) = filter (\<lambda>(k, v). ?keep k) (nodes f)"
    using True by (simp add: RemoveAll_def Let_def)
  then show ?thesis
    using assms by (simp add: lookupNode_def map_of_filter_key)
qed

lemma RemoveAll_gone:
  assumes "fst (RemoveAll f p) = None" and "prefix p q"
  shows "lookupNode (snd (RemoveAll f p)) q = None"
proof -
  from assms(1) have s: "searchable f p"
    by (auto simp add: RemoveAll_def split: if_splits)
  with assms(1) have e: "stuckEntries f p = []"
    by (auto simp add: RemoveAll_def Let_def split: list.splits)
  have "nodes (snd (RemoveAll f p)) = filter (\<lambda>(k, v). \<not> prefix p k) (nodes f)"
    using s e by (simp add: RemoveAll_def Let_def)
  then show ?thesis
    using assms(2) by (simp add: lookupNode_def map_of_filter_key)
qed

lemma Rename_failure_unchanged:
  "fst (Rename f a b) = Some e \<Longrightarrow> snd (Rename f a b) = f"
  by (auto simp add: Rename_def split: if_splits option.splits)

lemma activate_failure_outside:
  assumes "fst (activate E c f d) = Some e"
      and "\<not> prefix (DBDirectoryPath E (config c)) q"
  shows "lookupNode (snd (activate E c f d)) q = lookupNode f q"
proof (cases "validateIntegrity E c f d")
  case (Inl err)
  then show ?thesis by (simp add: activate_def)
next
  case (Inr m)
  let ?dir = "DBDirectoryPath E (config c)"
  show ?thesis
  proof (cases "IsNotExist (errOf (Stat f ?dir))")
    case True
    with Inr have a: "activate E c f d = Rename f d ?dir"
      by (simp add: activate_def)
    with assms(1) show ?thesis
      by (simp add: Rename_failure_unchanged)
  next
    case False
    obtain r f1 where rm: "RemoveAll f ?dir = (r, f1)"
      by (cases "RemoveAll f ?dir") blast
    show ?thesis
    proof (cases r)
      case None
      with Inr False rm have a: "activate E c f d = Rename f1 d ?dir"
        by (simp add: activate_def Delete_def Let_def)
      with assms(1) have "snd (activate E c f d) = f1"
        by (simp add: Rename_failure_unchanged)
      then show ?thesis
        using assms(2) rm RemoveAll_outside [of ?dir q f] by simp
    next
      case (Some err)
      with Inr False rm have "snd (activate E c f d) = f1"
        by (simp add: activate_def Delete_def Let_def)
      then show ?thesis
        using assms(2) rm RemoveAll_outside [of ?dir q f] by simp
    qed
  qed
qed

lemma below_staged_outside_active:
  assumes "\<not> prefix a d" and "\<not> prefix d a" and "prefix d q"
  shows "\<not> prefix a q"
proof
  assume "prefix a q"
  with assms(3) have "prefix a d \<or> prefix d a"
    by (metis prefix_same_cases)
  with assms(1,2) show False by blast
qed

text \<open>
  Claim C8, as stated, fails for \<open>Import\<close>: when \<open>archiver.Unarchive\<close> fails, \<open>Import\<close>
  returns at once and the temp directory it has just made stays where it is.
\<close>

theorem Import_leaves_staging_after_failed_unarchive:
  "lookupNode installedFs tempDir0 = None \<and>
   fst (Import demoDeps demoCurator installedFs ''broken.zip'') =
     Some (External ''format unrecognized by filename'') \<and>
   lookupNode (snd (Import demoDeps demoCurator installedFs ''broken.zip'')) tempDir0 = Some newDir"
  by (simp add: model_defs os_defs demo_defs)

text \<open>
  Claim C8, amended. When \<open>activate\<close> fails inside \<open>Import\<close>, \<open>Import\<close> calls
  \<open>removeAllOrLog\<close> on its staging directory before it returns the error, and the
  directory is gone whenever that \<open>RemoveAll\<close> succeeds; when \<open>Unarchive\<close> fails,
  \<open>Import\<close> returns the error and leaves the file system as \<open>Unarchive\<close> left it. When
  \<open>activate\<close> fails inside \<open>Update\<close> on a downloaded staging directory that lies
  neither in nor above the active directory, everything at and below the staging
  directory is as the download left it.
\<close>

theorem staging_directory_after_failure:
  "(\<forall>tempDir f1 f2 err f3.
      MkdirTemp f (DBRootDir (config c)) (''tmp-v'' @ Itoa (ModelVersion E) @ ''-import'')
        = (Inr tempDir, f1) \<longrightarrow>
      Unarchive E archive tempDir f1 = (None, f2) \<longrightarrow>
      activate E c f2 tempDir = (Some err, f3) \<longrightarrow>
        Import E c f archive = (Some err, snd (RemoveAll f3 tempDir)) \<and>
        (fst (RemoveAll f3 tempDir) = None \<longrightarrow>
           lookupNode (snd (Import E c f archive)) tempDir = None)) \<and>
   (\<forall>tempDir f1 err f2.
      MkdirTemp f (DBRootDir (config c)) (''tmp-v'' @ Itoa (ModelVersion E) @ ''-import'')
        = (Inr tempDir, f1) \<longrightarrow>
      Unarchive E archive tempDir f1 = (Some err, f2) \<longrightarrow>
        Import E c f archive = (Some err, f2)) \<and>
   (\<forall>cur u chk dest f3 err f4 q.
      isUpdateCheckAllowed E c w \<longrightarrow>
      readDatabaseDescription E (fs w) (DBDirectoryPath E (config c)) = Inr cur \<longrightarrow>
      IsUpdateAvailable (client c) cur = (Some u, chk) \<longrightarrow>
      Download (client c) u (butlast (DBRootDir (config c))) (fs w) = (Inr dest, f3) \<longrightarrow>
      activate E c f3 dest = (Some err, f4) \<longrightarrow>
      \<not> prefix (DBDirectoryPath E (config c)) dest \<longrightarrow>
      \<not> prefix dest (DBDirectoryPath E (config c)) \<longrightarrow>
      prefix dest q \<longrightarrow>
        lookupNode (fs (snd (Update E c w))) q = lookupNode f3 q)"
proof (intro conjI allI impI)
  fix tempDir f1 f2 err f3
  assume "MkdirTemp f (DBRootDir (config c)) (''tmp-v'' @ Itoa (ModelVersion E) @ ''-import'')
            = (Inr tempDir, f1)"
     and "Unarchive E archive tempDir f1 = (None, f2)"
     and "activate E c f2 tempDir = (Some err, f3)"
  then show i: "Import E c f archive = (Some err, snd (RemoveAll f3 tempDir))"
    by (simp add: Import_def removeAllOrLog_def)
  assume "fst (RemoveAll f3 tempDir) = None"
  then show "lookupNode (snd (Import E c f archive)) tempDir = None"
    using i by (simp add: RemoveAll_gone)
next
  fix tempDir f1 err f2
  assume "MkdirTemp f (DBRootDir (config c)) (''tmp-v'' @ Itoa (ModelVersion E) @ ''-import'')
            = (Inr tempDir, f1)"
     and "Unarchive E archive tempDir f1 = (Some err, f2)"
  then show "Import E c f archive = (Some err, f2)"
    by (simp add: Import_def)
next
  fix cur u chk dest f3 err f4 q
  assume a: "isUpdateCheckAllowed E c w"
     and r: "readDatabaseDescription E (fs w) (DBDirectoryPath E (config c)) = Inr cur"
     and i: "IsUpdateAvailable (client c) cur = (Some u, chk)"
     and d: "Download (client c) u (butlast (DBRootDir (config c))) (fs w) = (Inr dest, f3)"
     and v: "activate E c f3 dest = (Some err, f4)"
     and apart: "\<not> prefix (DBDirectoryPath E (config c)) dest"
                "\<not> prefix dest (DBDirectoryPath E (config c))"
     and below: "prefix dest q"
  from a r i d v have u: "fs (snd (Update E c w)) = f4"
    by (simp add: Update_def Let_def fs_logCall)
  from apart below have "\<not> prefix (DBDirectoryPath E (config c)) q"
    using below_staged_outside_active by blast
  moreover from v have "fst (activate E c f3 dest) = Some err" "snd (activate E c f3 dest) = f4"
    by simp_all
  ultimately have "lookupNode f4 q = lookupNode f3 q"
    using activate_failure_outside by metis
  with u show "lookupNode (fs (snd (Update E c w))) q = lookupNode f3 q"
    by simp
qed

lemma demo_mkdirtemp:
  "MkdirTemp installedFs (DBRootDir (config (curatorWith cl)))
     (''tmp-v'' @ Itoa (ModelVersion demoDeps) @ ''-import'') =
     (Inr tempDir0, installedFs\<lparr>nodes := nodes installedFs @ [(tempDir0, newDir)]\<rparr>)"
  by (simp add: eval_defs os_defs demo_defs)

theorem staging_directory_after_failure_witness:
  "fst (Import demoDeps (curatorWith clientDamaged) installedFs ''damaged.tar.gz'') =
     Some (BadDbChecksum (tempDir0 @ [''vulnerability.db'']) ''len:8'' ''len:7'') \<and>
   lookupNode (snd (Import demoDeps (curatorWith clientDamaged) installedFs ''damaged.tar.gz''))
     tempDir0 = None \<and>
   fst (Import demoDeps (curatorWith clientDamaged) installedFs ''broken.zip'') =
     Some (External ''format unrecognized by filename'') \<and>
   lookupNode (snd (Import demoDeps (curatorWith clientDamaged) installedFs ''broken.zip''))
     tempDir0 = Some newDir \<and>
   lookupNode (fs (snd (Update demoDeps (curatorWith clientDamaged) laterWorld)))
     (stagedDir @ [''vulnerability.db'']) = Some (mkFile ''payl0ad'')"
proof -
  let ?c = "curatorWith clientDamaged"
  let ?f1 = "installedFs\<lparr>nodes := nodes installedFs @ [(tempDir0, newDir)]\<rparr>"
  let ?err = "BadDbChecksum (tempDir0 @ [''vulnerability.db'']) ''len:8'' ''len:7''"
  let ?f2 = "snd (Unarchive demoDeps ''damaged.tar.gz'' tempDir0 ?f1)"
  have un: "Unarchive demoDeps ''damaged.tar.gz'' tempDir0 ?f1 = (None, ?f2)"
    by (simp add: demo_defs)
  have act: "activate demoDeps ?c ?f2 tempDir0 = (Some ?err, ?f2)"
    by (simp add: eval_defs os_defs demo_defs)
  have rm: "fst (RemoveAll ?f2 tempDir0) = None"
    by (simp add: eval_defs os_defs demo_defs)
  have bad: "Unarchive demoDeps ''broken.zip'' tempDir0 ?f1 =
               (Some (External ''format unrecognized by filename''), ?f1)"
    by (simp add: demo_defs)
  note T1 = staging_directory_after_failure [where E = demoDeps and c = ?c
      and f = installedFs and w = laterWorld and archive = "''damaged.tar.gz''"]
  note T2 = staging_directory_after_failure [where E = demoDeps and c = ?c
      and f = installedFs and w = laterWorld and archive = "''broken.zip''"]
  have i1: "Import demoDeps ?c installedFs ''damaged.tar.gz'' =
              (Some ?err, snd (RemoveAll ?f2 tempDir0))"
    using T1 [THEN conjunct1, rule_format, OF demo_mkdirtemp un act] by blast
  have i2: "lookupNode (snd (Import demoDeps ?c installedFs ''damaged.tar.gz'')) tempDir0 = None"
    using T1 [THEN conjunct1, rule_format, OF demo_mkdirtemp un act] rm by blast
  have i3: "Import demoDeps ?c installedFs ''broken.zip'' =
              (Some (External ''format unrecognized by filename''), ?f1)"
    using T2 [THEN conjunct2, THEN conjunct1, rule_format, OF demo_mkdirtemp bad] .
  let ?f3 = "snd (Download (client ?c) archiveNew (butlast (DBRootDir (config ?c))) (fs laterWorld))"
  let ?e3 = "BadDbChecksum (stagedDir @ [''vulnerability.db'']) ''len:8'' ''len:7''"
  have dl: "Download (client ?c) archiveNew (butlast (DBRootDir (config ?c))) (fs laterWorld)
              = (Inr stagedDir, ?f3)"
    by (simp add: demo_defs)
  have a3: "activate demoDeps ?c ?f3 stagedDir = (Some ?e3, ?f3)"
    by (simp add: eval_defs os_defs demo_defs)
  have ap: "\<not> prefix (DBDirectoryPath demoDeps (config ?c)) stagedDir"
           "\<not> prefix stagedDir (DBDirectoryPath demoDeps (config ?c))"
           "prefix stagedDir (stagedDir @ [''vulnerability.db''])"
    by (simp_all add: eval_defs os_defs demo_defs)
  have i4: "lookupNode (fs (snd (Update demoDeps ?c laterWorld))) (stagedDir @ [''vulnerability.db''])
              = lookupNode ?f3 (stagedDir @ [''vulnerability.db''])"
    using T1 [THEN conjunct2, THEN conjunct2, rule_format,
        OF later_allowed_any later_current_any check_damaged dl a3 ap] .
  have l3: "lookupNode ?f3 (stagedDir @ [''vulnerability.db'']) = Some (mkFile ''payl0ad'')"
    by (simp add: os_defs demo_defs)
  have l1: "lookupNode ?f1 tempDir0 = Some newDir"
    by (simp add: os_defs demo_defs)
  show ?thesis
    using i1 i2 i3 i4 l3 l1 by simp
qed

end
